theory Spec2Isabelle
  imports Main "HOL-Library.Word" "HOL-Library.Code_Target_Numeral"
begin

section \<open>JavaScript values\<close>

text \<open>
  The values that flow through the frontend data layer and the backend handler: JSON
  data, plus error objects. A string is a list of 8-bit characters (one per code unit, so
  the model covers Latin-1 text). A number is a signed 54-bit integer, from \<open>-2^53\<close>
  to \<open>2^53 - 1\<close>: the integers in that range are numbers that JavaScript holds
  exactly and prints in plain decimal digits. \<open>JObj\<close> lists the own properties of a
  plain object, the first entry for a key being the one that is read.
  \<open>JError name message props\<close> is an error object: its constructor name, its
  message, and its other own properties (\<open>cause\<close>, or the \<open>response\<close> and
  \<open>request\<close> that axios attaches).
\<close>

datatype jsval =
    JUndefined
  | JNull
  | JBool bool
  | JNum "54 word"
  | JStr string
  | JArr "jsval list"
  | JObj "(string \<times> jsval) list"
  | JError string string "(string \<times> jsval) list"

text \<open>A completed call: \<open>Inl\<close> is the thrown value, \<open>Inr\<close> the returned one.\<close>

type_synonym completion = "jsval + jsval"

text \<open>Truthiness, as \<open>!v\<close>, \<open>v ? a : b\<close> and \<open>v || d\<close> test it.\<close>

fun truthy :: "jsval \<Rightarrow> bool" where
  "truthy JUndefined = False"
| "truthy JNull = False"
| "truthy (JBool b) = b"
| "truthy (JNum n) = (n \<noteq> 0)"
| "truthy (JStr s) = (s \<noteq> [])"
| "truthy (JArr xs) = True"
| "truthy (JObj kvs) = True"
| "truthy (JError name msg ps) = True"

definition new_Error :: "string \<Rightarrow> jsval" where
  "new_Error msg = JError ''Error'' msg []"

definition new_Error_cause :: "string \<Rightarrow> jsval \<Rightarrow> jsval" where
  "new_Error_cause msg c = JError ''Error'' msg [(''cause'', c)]"

text \<open>
  \<open>new Error(msg, options)\<close> with an arbitrary value as \<open>options\<close>: the new error
  gets a cause only when \<open>options\<close> is an object that has a \<open>cause\<close> property.
\<close>

fun new_Error_options :: "string \<Rightarrow> jsval \<Rightarrow> jsval" where
  "new_Error_options msg (JObj kvs) =
     (case map_of kvs ''cause'' of None \<Rightarrow> new_Error msg | Some c \<Rightarrow> new_Error_cause msg c)"
| "new_Error_options msg (JError name m ps) =
     (case map_of ps ''cause'' of None \<Rightarrow> new_Error msg | Some c \<Rightarrow> new_Error_cause msg c)"
| "new_Error_options msg v = new_Error msg"

definition type_error :: "string \<Rightarrow> jsval" where
  "type_error msg = JError ''TypeError'' msg []"

definition quoted :: "string \<Rightarrow> string" where
  "quoted k = [CHR 0x27] @ k @ [CHR 0x27]"

text \<open>
  The property read \<open>v.k\<close>. Reading a property of \<open>undefined\<close> or \<open>null\<close>
  throws a TypeError (with the message that Node.js gives it); a missing property reads
  as \<open>undefined\<close>. The model is used with the keys of the source only, none of which
  a built-in prototype defines.
\<close>

fun get_prop :: "jsval \<Rightarrow> string \<Rightarrow> completion" where
  "get_prop JUndefined k =
     Inl (type_error (''Cannot read properties of undefined (reading '' @ quoted k @ '')''))"
| "get_prop JNull k =
     Inl (type_error (''Cannot read properties of null (reading '' @ quoted k @ '')''))"
| "get_prop (JObj kvs) k = Inr (case map_of kvs k of None \<Rightarrow> JUndefined | Some v \<Rightarrow> v)"
| "get_prop (JError name msg ps) k =
     Inr (if k = ''message'' then JStr msg
          else if k = ''name'' then JStr name
          else (case map_of ps k of None \<Rightarrow> JUndefined | Some v \<Rightarrow> v))"
| "get_prop v k = Inr JUndefined"

text \<open>
  The string conversion of a template literal and of \<open>new Error(v)\<close>.
  \<open>ToString\<close> is the text of a value that converts; \<open>to_primitive_throws\<close> tells
  the values that do not: an object whose own property \<open>toString\<close> shadows the
  inherited method (no value of the model is callable), and an array that holds one.
  \<open>template_string\<close> is the conversion with its TypeError.
\<close>

fun dec_digits :: "nat \<Rightarrow> string" where
  "dec_digits n =
     (if n < 10 then [char_of (48 + n)]
      else dec_digits (n div 10) @ [char_of (48 + n mod 10)])"

fun join_with :: "string \<Rightarrow> string list \<Rightarrow> string" where
  "join_with sep [] = []"
| "join_with sep [x] = x"
| "join_with sep (x # y # ys) = x @ sep @ join_with sep (y # ys)"

fun ToString :: "jsval \<Rightarrow> string" where
  "ToString JUndefined = ''undefined''"
| "ToString JNull = ''null''"
| "ToString (JBool b) = (if b then ''true'' else ''false'')"
| "ToString (JNum n) =
     (if sint n < 0 then ''-'' @ dec_digits (nat (- sint n)) else dec_digits (nat (sint n)))"
| "ToString (JStr s) = s"
| "ToString (JArr xs) =
     join_with '','' (map (\<lambda>x. if x = JUndefined \<or> x = JNull then [] else ToString x) xs)"
| "ToString (JObj kvs) = ''[object Object]''"
| "ToString (JError name msg ps) =
     (if name = [] then msg else if msg = [] then name else name @ '': '' @ msg)"

fun to_primitive_throws :: "jsval \<Rightarrow> bool" where
  "to_primitive_throws (JObj kvs) = (''toString'' \<in> set (map fst kvs))"
| "to_primitive_throws (JArr xs) = list_ex to_primitive_throws xs"
| "to_primitive_throws (JError name msg ps) = (''toString'' \<in> set (map fst ps))"
| "to_primitive_throws v = False"

definition template_string :: "jsval \<Rightarrow> jsval + string" where
  "template_string v =
     (if to_primitive_throws v then Inl (type_error ''Cannot convert object to primitive value'')
      else Inr (ToString v))"

text \<open>
  \<open>Array.prototype.map\<close> with a callback that may throw: the first throw ends the
  loop and no array is produced.
\<close>

fun array_map :: "(jsval \<Rightarrow> completion) \<Rightarrow> jsval list \<Rightarrow> jsval + jsval list" where
  "array_map f [] = Inr []"
| "array_map f (x # xs) =
     (case f x of
        Inl e \<Rightarrow> Inl e
      | Inr y \<Rightarrow> (case array_map f xs of Inl e \<Rightarrow> Inl e | Inr ys \<Rightarrow> Inr (y # ys)))"

text \<open>
  The call \<open>d.map(f)\<close> on a value received as JSON: only an array has a \<open>map\<close>
  method; on every other value the call throws a TypeError.
\<close>

fun call_map :: "jsval \<Rightarrow> (jsval \<Rightarrow> completion) \<Rightarrow> completion" where
  "call_map (JArr xs) f = (case array_map f xs of Inl e \<Rightarrow> Inl e | Inr ys \<Rightarrow> Inr (JArr ys))"
| "call_map JUndefined f =
     Inl (type_error (''Cannot read properties of undefined (reading '' @ quoted ''map'' @ '')''))"
| "call_map JNull f =
     Inl (type_error (''Cannot read properties of null (reading '' @ quoted ''map'' @ '')''))"
| "call_map v f = Inl (type_error ''response.data.map is not a function'')"


section \<open>Frontend data layer\<close>

text \<open>
  The outbound calls of the data layer. \<open>axios\<close> is the network: it answers a request
  with a response object (\<open>Inr\<close>) or rejects with an error value (\<open>Inl\<close>).
  \<open>BACKEND_URL\<close> is the environment variable of that name, \<open>None\<close> when unset.
  Each function returns the requests it has sent together with its completion.
\<close>

datatype request =
    Get string
  | Post string jsval "(string \<times> string) list"

record api_env =
  BACKEND_URL :: "string option"
  axios :: "request \<Rightarrow> completion"

definition DEV_URL :: string where
  "DEV_URL = ''http://localhost:3000''"

definition BASE_URL :: "api_env \<Rightarrow> string" where
  "BASE_URL env = (case BACKEND_URL env of None \<Rightarrow> DEV_URL | Some u \<Rightarrow> u)"

definition json_headers :: "(string \<times> string) list" where
  "json_headers = [(''Content-Type'', ''application/json'')]"

subsection \<open>searchPatient\<close>

text \<open>The callback of \<open>response.data.map\<close>.\<close>

definition to_preview :: "jsval \<Rightarrow> completion" where
  "to_preview r =
     (case get_prop r ''id'' of
        Inl e \<Rightarrow> Inl e
      | Inr i \<Rightarrow>
          if \<not> truthy i then Inl (new_Error ''Received patient has no `id`!'')
          else (case get_prop r ''nombres'' of
                  Inl e \<Rightarrow> Inl e
                | Inr n \<Rightarrow>
                    if \<not> truthy n then Inl (new_Error ''Received patient has no `names`!'')
                    else (case get_prop r ''apellidos'' of
                            Inl e \<Rightarrow> Inl e
                          | Inr a \<Rightarrow>
                              if \<not> truthy a
                              then Inl (new_Error ''Received patient has no `apellidos`!'')
                              else (case template_string n of
                                      Inl e \<Rightarrow> Inl e
                                    | Inr ns \<Rightarrow>
                                        (case template_string a of
                                           Inl e \<Rightarrow> Inl e
                                         | Inr as \<Rightarrow>
                                             Inr (JObj [(''id'', i),
                                                        (''names'', JStr (ns @ '' '' @ as))]))))))"

definition searchPatient_request :: "api_env \<Rightarrow> jsval \<Rightarrow> jsval \<Rightarrow> request" where
  "searchPatient_request env query type =
     Post (BASE_URL env @ ''/patient/search'')
          (JObj [(''requestSearch'', query), (''searchType'', type)])
          json_headers"

text \<open>The body of the outer \<open>try\<close>: what it returns, or what it throws.\<close>

definition searchPatient_try :: "api_env \<Rightarrow> jsval \<Rightarrow> jsval \<Rightarrow> completion" where
  "searchPatient_try env query type =
     (case axios env (searchPatient_request env query type) of
        Inl error \<Rightarrow> Inl (new_Error_cause ''API ERROR'' error)
      | Inr response \<Rightarrow>
          (case get_prop response ''data'' of
             Inl e \<Rightarrow> Inl e
           | Inr d \<Rightarrow>
               (case call_map d to_preview of
                  Inl e \<Rightarrow> Inl e
                | Inr result \<Rightarrow> Inr (JObj [(''result'', result)]))))"

definition searchPatient :: "api_env \<Rightarrow> jsval \<Rightarrow> jsval \<Rightarrow> request list \<times> completion" where
  "searchPatient env query type =
     ([searchPatient_request env query type],
      (case searchPatient_try env query type of
         Inl error \<Rightarrow> Inr (JObj [(''error'', error)])
       | Inr v \<Rightarrow> Inr v))"

subsection \<open>checkCui\<close>

text \<open>
  The body of the \<open>try\<close>: the URL is built first (and nothing is sent when that
  throws), then the request is made.
\<close>

definition checkCui_try :: "api_env \<Rightarrow> jsval \<Rightarrow> request list \<times> completion" where
  "checkCui_try env cui =
     (case template_string cui of
        Inl e \<Rightarrow> ([], Inl e)
      | Inr c \<Rightarrow>
          ([Get (BASE_URL env @ ''/check-cui/'' @ c)],
           (case axios env (Get (BASE_URL env @ ''/check-cui/'' @ c)) of
              Inl error \<Rightarrow> Inl error
            | Inr response \<Rightarrow>
                (case get_prop response ''data'' of
                   Inl e \<Rightarrow> Inl e
                 | Inr d \<Rightarrow>
                     (case get_prop d ''exists'' of
                        Inl e \<Rightarrow> Inl e
                      | Inr ex \<Rightarrow> Inr (JObj [(''exists'', ex), (''cui'', cui)]))))))"

definition checkCui :: "api_env \<Rightarrow> jsval \<Rightarrow> request list \<times> completion" where
  "checkCui env cui =
     (fst (checkCui_try env cui),
      (case snd (checkCui_try env cui) of
         Inl error \<Rightarrow> Inl (new_Error_options ''Error fetching CUI:'' error)
       | Inr v \<Rightarrow> Inr v))"

subsection \<open>submitPatientData\<close>

text \<open>
  The request body is built before the call; reading a field of a \<open>patientData\<close>
  that is \<open>undefined\<close> or \<open>null\<close> throws inside the \<open>try\<close>, and nothing is
  sent then.
\<close>

definition submit_body :: "jsval \<Rightarrow> completion" where
  "submit_body patientData =
     (case get_prop patientData ''cui'' of
        Inl e \<Rightarrow> Inl e
      | Inr c \<Rightarrow>
     (case get_prop patientData ''names'' of
        Inl e \<Rightarrow> Inl e
      | Inr n \<Rightarrow>
     (case get_prop patientData ''surnames'' of
        Inl e \<Rightarrow> Inl e
      | Inr s \<Rightarrow>
     (case get_prop patientData ''sex'' of
        Inl e \<Rightarrow> Inl e
      | Inr sx \<Rightarrow>
     (case get_prop patientData ''birthDate'' of
        Inl e \<Rightarrow> Inl e
      | Inr b \<Rightarrow>
          Inr (JObj [(''cui'', c),
                     (''nombres'', n),
                     (''apellidos'', s),
                     (''esMujer'', JStr (if truthy sx then ''F'' else ''M'')),
                     (''fechaNacimiento'', b)]))))))"

text \<open>The \<open>catch\<close> block: it always throws.\<close>

definition submit_catch :: "jsval \<Rightarrow> completion" where
  "submit_catch error =
     (case get_prop error ''response'' of
        Inl e \<Rightarrow> Inl e
      | Inr resp \<Rightarrow>
          if truthy resp then
            (case get_prop resp ''data'' of
               Inl e \<Rightarrow> Inl e
             | Inr d \<Rightarrow>
                 (case get_prop d ''error'' of
                    Inl e \<Rightarrow> Inl e
                  | Inr m \<Rightarrow>
                      (case template_string
                              (if truthy m then m else JStr ''Error registering information'') of
                         Inl e \<Rightarrow> Inl e
                       | Inr msg \<Rightarrow> Inl (new_Error msg))))
          else
            (case get_prop error ''request'' of
               Inl e \<Rightarrow> Inl e
             | Inr rq \<Rightarrow>
                 if truthy rq then Inl (new_Error ''No response was received'')
                 else Inl (new_Error ''Error setting up request'')))"

definition submitPatientData :: "api_env \<Rightarrow> jsval \<Rightarrow> request list \<times> completion" where
  "submitPatientData env patientData =
     (case submit_body patientData of
        Inl error \<Rightarrow> ([], submit_catch error)
      | Inr body \<Rightarrow>
          ([Post (BASE_URL env @ ''/patient'') body json_headers],
           (case axios env (Post (BASE_URL env @ ''/patient'') body json_headers) of
              Inl error \<Rightarrow> submit_catch error
            | Inr response \<Rightarrow>
                (case get_prop response ''data'' of
                   Inl error \<Rightarrow> submit_catch error
                 | Inr d \<Rightarrow> Inr d))))"


section \<open>Backend: the student-information handler\<close>

text \<open>
  The handler of \<open>GET /patient/student/{id}\<close>. Everything it imports is a parameter
  (\<open>deps\<close>): the environment variable \<open>POSTGRES_URL\<close>, the client factory
  \<open>getPgClient\<close>, the row mapper \<open>mapToAPIStudentInfo\<close>, the default CORS headers
  of the response builder, and \<open>JSON.stringify\<close> on a caught error. Each of the
  calls may throw. The logging calls (\<open>withRequest\<close>, \<open>logger.info\<close>,
  \<open>logger.error\<close>) only write to the log and are left out.

  A database client is the outcome of each of its three methods; the handler returns the
  calls it has made on the client, in order, together with its completion.
\<close>

record event =
  httpMethod :: jsval
  pathParameters :: jsval

record response =
  statusCode :: nat
  headers :: "(string \<times> string) list"
  body :: jsval

datatype pg_event =
    Connect
  | Query string "jsval list"
  | End

record db_response =
  rowCount :: jsval
  rows :: "jsval list"

record pg_client =
  pg_connect :: "jsval option"
  pg_query :: "string \<Rightarrow> jsval list \<Rightarrow> jsval + db_response"
  pg_end :: "jsval option"

record deps =
  POSTGRES_URL :: jsval
  getPgClient :: "jsval \<Rightarrow> jsval + pg_client"
  mapToAPIStudentInfo :: "jsval \<Rightarrow> completion"
  cors_headers :: "(string \<times> string) list"
  JSON_stringify :: "jsval \<Rightarrow> jsval + string"

subsection \<open>The response builder\<close>

text \<open>
  Modelled from the spec: the response builder of the module \<open>utils\<close>, which is not
  among the sources (\<open>createResponse\<close> and its methods \<open>setStatusCode\<close>,
  \<open>addCORSHeaders\<close>, \<open>setBody\<close> and \<open>build\<close>). It assembles a status code,
  CORS headers and a body into a response; it performs no I/O and has no error
  conditions. The default CORS headers are those of \<open>deps\<close>; the handler overwrites
  every field of the initial builder.
\<close>

definition createResponse :: response where
  "createResponse = \<lparr>statusCode = 200, headers = [], body = JUndefined\<rparr>"

definition setStatusCode :: "nat \<Rightarrow> response \<Rightarrow> response" where
  "setStatusCode n r = r\<lparr>statusCode := n\<rparr>"

definition addCORSHeaders :: "deps \<Rightarrow> response \<Rightarrow> response" where
  "addCORSHeaders d r = r\<lparr>headers := cors_headers d\<rparr>"

definition setBody :: "jsval \<Rightarrow> response \<Rightarrow> response" where
  "setBody b r = r\<lparr>body := b\<rparr>"

definition build :: "response \<Rightarrow> response" where
  "build r = r"

subsection \<open>The handler\<close>

definition select_student :: string where
  "select_student = ''SELECT * FROM estudiante WHERE ID_PACIENTE = $1 LIMIT 1;''"

definition no_id_response :: response where
  \<open>no_id_response =
     \<lparr>statusCode = 400,
      headers = [(''Access-Control-Allow-Headers'', ''Content-Type''),
                 (''Access-Control-Allow-Origin'', ''*''),
                 (''Access-Control-Allow-Methods'', ''GET'')],
      body = JStr ''{"message":"Invalid request: No id supplied!"}''\<rparr>\<close>

definition no_student_response :: "deps \<Rightarrow> response" where
  \<open>no_student_response d =
     build (setBody (JStr ''{"message":"Invalid request: No student with the given ID found."}'')
       (addCORSHeaders d (setStatusCode 404 createResponse)))\<close>

definition first_row :: "db_response \<Rightarrow> jsval" where
  "first_row r = (case rows r of [] \<Rightarrow> JUndefined | x # xs \<Rightarrow> x)"

text \<open>The part of the \<open>try\<close> block from the query on.\<close>

definition handler_query :: "deps \<Rightarrow> pg_client \<Rightarrow> jsval \<Rightarrow> pg_event list \<times> (jsval + response)" where
  "handler_query d client ident =
     ([Query select_student [ident]],
      (case pg_query client select_student [ident] of
         Inl e \<Rightarrow> Inl e
       | Inr dbResponse \<Rightarrow>
           if rowCount dbResponse = JNum 0 then Inr (no_student_response d)
           else (case mapToAPIStudentInfo d (first_row dbResponse) of
                   Inl e \<Rightarrow> Inl e
                 | Inr b \<Rightarrow>
                     Inr (build (setBody b (addCORSHeaders d (setStatusCode 200 createResponse)))))))"

text \<open>
  The \<open>try\<close> block: the client, if \<open>getPgClient\<close> returned one, the calls made on
  it, and what the block returns or throws.
\<close>

definition handler_try :: "deps \<Rightarrow> event \<Rightarrow> pg_client option \<times> pg_event list \<times> (jsval + response)" where
  "handler_try d ev =
     (case getPgClient d (POSTGRES_URL d) of
        Inl e \<Rightarrow> (None, [], Inl e)
      | Inr client \<Rightarrow>
          (case pg_connect client of
             Some e \<Rightarrow> (Some client, [Connect], Inl e)
           | None \<Rightarrow>
               (case get_prop (pathParameters ev) ''id'' of
                  Inl e \<Rightarrow> (Some client, [Connect], Inl e)
                | Inr ident \<Rightarrow>
                    if \<not> truthy ident then (Some client, [Connect], Inr no_id_response)
                    else (Some client,
                          Connect # fst (handler_query d client ident),
                          snd (handler_query d client ident)))))"

definition handler_catch :: "deps \<Rightarrow> jsval \<Rightarrow> jsval + response" where
  "handler_catch d error =
     (case JSON_stringify d error of
        Inl e \<Rightarrow> Inl e
      | Inr s \<Rightarrow> Inr (build (setBody (JStr s) (addCORSHeaders d (setStatusCode 500 createResponse)))))"

text \<open>The \<open>finally\<close> block: \<open>await client?.end()\<close>; a throw there replaces the completion.\<close>

definition handler_finally ::
  "pg_client option \<Rightarrow> pg_event list \<times> (jsval + response) \<Rightarrow> pg_event list \<times> (jsval + response)" where
  "handler_finally client tc =
     (case client of
        None \<Rightarrow> tc
      | Some cl \<Rightarrow>
          (fst tc @ [End], (case pg_end cl of Some e \<Rightarrow> Inl e | None \<Rightarrow> snd tc)))"

definition handler :: "deps \<Rightarrow> event \<Rightarrow> pg_event list \<times> (jsval + response)" where
  "handler d ev =
     (if httpMethod ev \<noteq> JStr ''GET'' then
        ([], (case template_string (httpMethod ev) of
                Inl e \<Rightarrow> Inl e
              | Inr m \<Rightarrow>
                  Inl (new_Error (''/patient/student/{id} only accepts GET method, you tried: ''
                                  @ m))))
      else
        (case handler_try d ev of
           (client, tr, c) \<Rightarrow>
             handler_finally client
               (tr, (case c of Inl error \<Rightarrow> handler_catch d error | Inr r \<Rightarrow> Inr r))))"


section \<open>Frontend views\<close>

subsection \<open>Whitespace\<close>

text \<open>
  The characters that \<open>String.prototype.trim\<close> strips and that \<open>\s\<close> matches,
  among the 8-bit ones: tab, line feed, vertical tab, form feed, carriage return, space
  and no-break space.
\<close>

definition is_white_space :: "char \<Rightarrow> bool" where
  "is_white_space c = (of_char c \<in> {9, 10, 11, 12, 13, 32, 160 :: nat})"

definition trim :: "string \<Rightarrow> string" where
  "trim s = rev (dropWhile is_white_space (rev (dropWhile is_white_space s)))"

subsection \<open>SearchPatientView\<close>

text \<open>
  The state the view renders from: the search query of the store, the patients of the
  store, and the local error message. The injected \<open>searchPatientsApiCall\<close> resolves
  to \<open>{result}\<close> or to \<open>{error}\<close>; of an error the view reads \<open>error.cause\<close> and
  \<open>error.cause.response?.status\<close>.
\<close>

record error_cause =
  response_status :: "int option"

record api_error =
  cause :: "error_cause option"

datatype search_result =
    SearchResult "jsval list"
  | SearchError api_error

record search_view =
  query :: string
  search_type :: string
  patients :: "jsval list"
  error :: string

definition showErrorMessage :: "string \<Rightarrow> search_view \<Rightarrow> search_view" where
  "showErrorMessage message st = st\<lparr>error := ''ERROR: '' @ message\<rparr>"

definition hideErrorMessage :: "search_view \<Rightarrow> search_view" where
  "hideErrorMessage st = st\<lparr>error := []\<rparr>"

definition emptyQuery :: "search_view \<Rightarrow> bool" where
  "emptyQuery st = (length (trim (query st)) \<le> 0)"

text \<open>The \<open>disabled\<close> attribute of the search button.\<close>

definition search_button_disabled :: "search_view \<Rightarrow> bool" where
  "search_button_disabled st = emptyQuery st"

text \<open>\<open>response?.status < 500\<close>: false when there is no status to compare.\<close>

definition status_below_500 :: "error_cause \<Rightarrow> bool" where
  "status_below_500 c = (case response_status c of None \<Rightarrow> False | Some n \<Rightarrow> n < 500)"

text \<open>
  The click handler: the calls it makes to \<open>searchPatientsApiCall\<close>, as pairs of
  query and type, and the state it leaves.
\<close>

definition searchBtnClick ::
  "(string \<Rightarrow> string \<Rightarrow> search_result) \<Rightarrow> search_view \<Rightarrow> (string \<times> string) list \<times> search_view" where
  "searchBtnClick searchPatientsApiCall st =
     (if emptyQuery st then
        ([], showErrorMessage ''Por favor ingrese algo para buscar!'' (hideErrorMessage st))
      else
        ([(query st, search_type st)],
         (case searchPatientsApiCall (query st) (search_type st) of
            SearchError e \<Rightarrow>
              (case cause e of
                 Some c \<Rightarrow>
                   if status_below_500 c then
                     showErrorMessage
                       (''B'' @ [CHR 0xFA] @ ''squeda incorrecta, por favor ingresa todos los par''
                        @ [CHR 0xE1] @ ''metros!'')
                       (hideErrorMessage st)
                   else
                     showErrorMessage ''Ha ocurrido un error interno, lo sentimos.''
                       (hideErrorMessage st)
               | None \<Rightarrow> showErrorMessage ''The API has changed!'' (hideErrorMessage st))
          | SearchResult apiPatients \<Rightarrow> (hideErrorMessage st)\<lparr>patients := apiPatients\<rparr>)))"

subsection \<open>PatientForm\<close>

text \<open>
  The patient data held by \<open>AddPatientView\<close> and edited by \<open>PatientForm\<close>. The
  field \<open>isWoman\<close> is what reading \<open>patientData.isWoman\<close> gives: \<open>JUndefined\<close>
  when the object has no such property, as is the case for the object that
  \<open>AddPatientView\<close> creates.
\<close>

record patient_data =
  cui :: string
  names :: string
  surnames :: string
  sex :: jsval
  birthDate :: string
  isWoman :: jsval

text \<open>The initial state of \<open>AddPatientView\<close>, from the CUI of the navigation state.\<close>

definition AddPatientView_state :: "string option \<Rightarrow> patient_data" where
  "AddPatientView_state location_cui =
     \<lparr>cui = (case location_cui of None \<Rightarrow> [] | Some c \<Rightarrow> c),
      names = [], surnames = [], sex = JNull, birthDate = [], isWoman = JUndefined\<rparr>"

text \<open>
  \<open>handleChange\<close> stores the value under the field's name; a name that is not a
  field of the record leaves the record as it is (the form calls it with \<open>cui\<close>,
  \<open>names\<close>, \<open>surnames\<close> and \<open>birthDate\<close> only). The characters that its
  filter keeps in names and surnames:
  ASCII letters (codes 97 to 122 and 65 to 90), the accented vowels, n with tilde, and
  whitespace.
\<close>

definition name_char :: "char \<Rightarrow> bool" where
  "name_char c =
     ((97 \<le> (of_char c :: nat) \<and> (of_char c :: nat) \<le> 122)
      \<or> (65 \<le> (of_char c :: nat) \<and> (of_char c :: nat) \<le> 90)
      \<or> c \<in> set [CHR 0xE1, CHR 0xE9, CHR 0xED, CHR 0xF3, CHR 0xFA,
                   CHR 0xC1, CHR 0xC9, CHR 0xCD, CHR 0xD3, CHR 0xDA, CHR 0xF1, CHR 0xD1]
      \<or> is_white_space c)"

definition handleChange :: "string \<Rightarrow> string \<Rightarrow> patient_data \<Rightarrow> patient_data" where
  "handleChange field v patientData =
     (if field = ''names'' then patientData\<lparr>names := filter name_char v\<rparr>
      else if field = ''surnames'' then patientData\<lparr>surnames := filter name_char v\<rparr>
      else if field = ''cui'' then patientData\<lparr>cui := v\<rparr>
      else if field = ''birthDate'' then patientData\<lparr>birthDate := v\<rparr>
      else if field = ''sex'' then patientData\<lparr>sex := JStr v\<rparr>
      else if field = ''isWoman'' then patientData\<lparr>isWoman := JStr v\<rparr>
      else patientData)"

definition handleGenderChange :: "string \<Rightarrow> patient_data \<Rightarrow> patient_data" where
  "handleGenderChange isFemale patientData = patientData\<lparr>sex := JStr isFemale\<rparr>"

text \<open>\<open>patientData[field]\<close> for the fields that \<open>validateFormData\<close> loops over.\<close>

definition get_field :: "patient_data \<Rightarrow> string \<Rightarrow> jsval" where
  "get_field patientData field =
     (if field = ''names'' then JStr (names patientData)
      else if field = ''surnames'' then JStr (surnames patientData)
      else if field = ''birthDate'' then JStr (birthDate patientData)
      else JUndefined)"

text \<open>The \<open>for\<close> loop of \<open>validateFormData\<close>: the first field that is empty.\<close>

fun first_empty :: "patient_data \<Rightarrow> string list \<Rightarrow> string option" where
  "first_empty patientData [] = None"
| "first_empty patientData (field # rest) =
     (if \<not> truthy (get_field patientData field) then Some field
      else first_empty patientData rest)"

text \<open>\<open>validateFormData\<close>: the alerts it shows and the value it returns.\<close>

definition validateFormData :: "patient_data \<Rightarrow> string list \<times> bool" where
  "validateFormData patientData =
     (if length (cui patientData) \<noteq> 13 then
        ([''El CUI debe contener exactamente 13 caracteres.''], False)
      else
        (case first_empty patientData [''names'', ''surnames'', ''birthDate''] of
           Some field \<Rightarrow>
             ([''El campo '' @ field @ '' es obligatorio y no puede estar vac'' @ [CHR 0xED] @ ''o.''],
              False)
         | None \<Rightarrow>
             if isWoman patientData = JNull then
               ([''El campo de g'' @ [CHR 0xE9] @ ''nero es obligatorio.''], False)
             else ([], True)))"

datatype nav_path = UPDATE_PATIENT

datatype ui_effect =
    Alert string
  | SubmitPatientData patient_data
  | SetSelectedPatientId jsval
  | Navigate nav_path bool

text \<open>
  \<open>handleSubmit\<close>: the effects it performs, in order, and the value it throws, if any
  (in the \<open>catch\<close> block, reading \<open>error.message\<close> throws when the caught value
  is \<open>undefined\<close> or \<open>null\<close>, and so does a message that does not convert to a
  string). The injected \<open>submitPatientData\<close> resolves to an
  identifier or rejects.
\<close>

definition handleSubmit ::
  "(patient_data \<Rightarrow> completion) \<Rightarrow> patient_data \<Rightarrow> ui_effect list \<times> jsval option" where
  "handleSubmit submitPatientData_prop patientData =
     (if snd (validateFormData patientData) then
        (case submitPatientData_prop patientData of
           Inr ident \<Rightarrow>
             ([SubmitPatientData patientData,
               Alert ([CHR 0xA1] @ ''Informaci'' @ [CHR 0xF3] @ ''n registrada con ''
                      @ [CHR 0xE9] @ ''xito!''),
               SetSelectedPatientId ident,
               Navigate UPDATE_PATIENT True],
              None)
         | Inl err \<Rightarrow>
             (case get_prop err ''message'' of
                Inl e \<Rightarrow> ([SubmitPatientData patientData], Some e)
              | Inr m \<Rightarrow>
                  (case template_string m of
                     Inl e \<Rightarrow> ([SubmitPatientData patientData], Some e)
                   | Inr ms \<Rightarrow>
                       ([SubmitPatientData patientData,
                         Alert (''Error al enviar datos: '' @ ms)],
                        None))))
      else (map Alert (fst (validateFormData patientData)), None))"


section \<open>Endpoints whose handlers are not among the sources\<close>

text \<open>
  What an HTTP client sees of a response: its status and its decoded JSON body
  (\<open>response.status\<close> and \<open>response.data\<close> in the integration tests).
\<close>

record api_response =
  status :: nat
  data :: jsval

subsection \<open>POST /patient\<close>

text \<open>
  Modelled from the spec: the patient table behind \<open>POST /patient\<close>, whose handler is
  not among the sources. A stored patient is the identifier assigned at creation and the
  fields of its payload; a new identifier is one more than the largest one stored. In a
  response an identifier is a number of the model.
\<close>

record stored_patient =
  patient_id :: nat
  patient_fields :: "(string \<times> jsval) list"

definition stored_cui :: "stored_patient \<Rightarrow> jsval" where
  "stored_cui p = (case map_of (patient_fields p) ''cui'' of None \<Rightarrow> JUndefined | Some c \<Rightarrow> c)"

definition next_id :: "stored_patient list \<Rightarrow> nat" where
  "next_id table = Suc (fold max (map patient_id table) 0)"

text \<open>
  Modelled from the spec: the handler of \<open>POST /patient\<close>, which is not among the
  sources (only its integration test is). A payload missing the national ID is answered
  with 400 and the error message "CUI es requerido."; a payload reusing a stored national
  ID is answered with 409 and "CUI ya existe." (the uniqueness invariant on the national
  ID); any other payload is stored and answered with success (status 200) and the new
  identifier.
  The handler maps the patient table and the payload to the response and the new table.
\<close>

definition create_patient ::
  "stored_patient list \<Rightarrow> (string \<times> jsval) list \<Rightarrow> api_response \<times> stored_patient list" where
  "create_patient table payload =
     (case map_of payload ''cui'' of
        None \<Rightarrow>
          (\<lparr>status = 400, data = JObj [(''error'', JStr ''CUI es requerido.'')]\<rparr>, table)
      | Some c \<Rightarrow>
          if c \<in> set (map stored_cui table) then
            (\<lparr>status = 409, data = JObj [(''error'', JStr ''CUI ya existe.'')]\<rparr>, table)
          else
            (\<lparr>status = 200, data = JNum (of_nat (next_id table))\<rparr>,
             table @ [\<lparr>patient_id = next_id table, patient_fields = payload\<rparr>]))"

subsection \<open>GET /patient/surgical-history/{id}\<close>

text \<open>
  Modelled from the spec: the stored surgical history behind
  \<open>GET /patient/surgical-history/{id}\<close>, whose handler is not among the sources:
  the identifiers of the patients, and the surgeries, each keyed by its patient.
\<close>

record surgery =
  surgery_patient :: nat
  surgeryType :: string
  surgeryYear :: string
  complications :: string

record clinic =
  patient_ids :: "nat list"
  surgeries :: "surgery list"

definition is_digit :: "char \<Rightarrow> bool" where
  "is_digit c = (48 \<le> (of_char c :: nat) \<and> (of_char c :: nat) \<le> 57)"

text \<open>A well-formed identifier is a non-empty string of decimal digits.\<close>

definition parse_id :: "string \<Rightarrow> nat option" where
  "parse_id s =
     (if s \<noteq> [] \<and> list_all is_digit s
      then Some (foldl (\<lambda>n c. 10 * n + (of_char c - 48)) 0 s)
      else None)"

definition surgery_json :: "surgery \<Rightarrow> jsval" where
  "surgery_json s =
     JObj [(''surgeryType'', JStr (surgeryType s)),
           (''surgeryYear'', JStr (surgeryYear s)),
           (''complications'', JStr (complications s))]"

definition no_surgical_history :: api_response where
  "no_surgical_history =
     \<lparr>status = 404,
      data = JObj [(''message'', JStr ''No surgical history found for the provided ID.'')]\<rparr>"

text \<open>
  Modelled from the spec: the handler of \<open>GET /patient/surgical-history/{id}\<close>, which
  is not among the sources (only its integration test is). A malformed identifier, an
  identifier of no patient, and a patient with zero recorded surgeries are all answered
  with 404 and the message "No surgical history found for the provided ID."; a patient
  with recorded surgeries is answered with 200 and one entry of \<open>surgicalEventData\<close>
  for each stored surgery.
\<close>

definition get_surgical_history :: "clinic \<Rightarrow> string \<Rightarrow> api_response" where
  "get_surgical_history db ident =
     (case parse_id ident of
        None \<Rightarrow> no_surgical_history
      | Some i \<Rightarrow>
          if i \<notin> set (patient_ids db) then no_surgical_history
          else
            (case filter (\<lambda>s. surgery_patient s = i) (surgeries db) of
               [] \<Rightarrow> no_surgical_history
             | s # ss \<Rightarrow>
                 \<lparr>status = 200,
                  data = JObj [(''patientId'', JNum (of_nat i)),
                               (''surgicalEvent'', JBool True),
                               (''surgicalEventData'', JArr (map surgery_json (s # ss)))]\<rparr>))"


section \<open>Notions used in the statements\<close>

text \<open>
  The value of a field of a received record (\<open>undefined\<close> when the record has no such
  field, or is not an object at all); a record lacks a field when that value is
  \<open>undefined\<close>.
\<close>

definition field :: "jsval \<Rightarrow> string \<Rightarrow> jsval" where
  "field r k = (case get_prop r k of Inl e \<Rightarrow> JUndefined | Inr v \<Rightarrow> v)"

definition lacks :: "jsval \<Rightarrow> string \<Rightarrow> bool" where
  "lacks r k = (field r k = JUndefined)"

text \<open>
  The preview of a record: its \<open>id\<close>, and its \<open>nombres\<close> and \<open>apellidos\<close>
  joined by a space.
\<close>

definition preview_of :: "jsval \<Rightarrow> jsval" where
  "preview_of r =
     JObj [(''id'', field r ''id''),
           (''names'', JStr (ToString (field r ''nombres'') @ '' '' @ ToString (field r ''apellidos'')))]"

text \<open>
  A complete record has an \<open>id\<close>, \<open>nombres\<close> and \<open>apellidos\<close> that are truthy, the
  latter two convertible to a string (as every non-empty string is).
\<close>

definition complete_record :: "jsval \<Rightarrow> bool" where
  "complete_record r =
     (truthy (field r ''id'') \<and> truthy (field r ''nombres'') \<and> truthy (field r ''apellidos'')
      \<and> \<not> to_primitive_throws (field r ''nombres'')
      \<and> \<not> to_primitive_throws (field r ''apellidos''))"

text \<open>The shape \<open>{result}\<close> or \<open>{error}\<close> of a returned object.\<close>

definition result_or_error :: "completion \<Rightarrow> bool" where
  "result_or_error c =
     (case c of
        Inr (JObj [(k, v)]) \<Rightarrow> k = ''result'' \<or> k = ''error''
      | _ \<Rightarrow> False)"

text \<open>Closing the connection does not throw (there may be no connection to close).\<close>

definition closes_normally :: "deps \<Rightarrow> bool" where
  "closes_normally d =
     (case getPgClient d (POSTGRES_URL d) of Inl e \<Rightarrow> True | Inr client \<Rightarrow> pg_end client = None)"

text \<open>The JavaScript object that a patient-data record stands for.\<close>

definition patient_object :: "patient_data \<Rightarrow> jsval" where
  "patient_object pd =
     JObj ([(''cui'', JStr (cui pd)),
            (''names'', JStr (names pd)),
            (''surnames'', JStr (surnames pd)),
            (''sex'', sex pd),
            (''birthDate'', JStr (birthDate pd))]
           @ (if isWoman pd = JUndefined then [] else [(''isWoman'', isWoman pd)]))"

text \<open>The data-layer function as the form receives it.\<close>

definition submit_via :: "api_env \<Rightarrow> patient_data \<Rightarrow> completion" where
  "submit_via env pd = snd (submitPatientData env (patient_object pd))"


section \<open>Example inputs\<close>

subsection \<open>Servers\<close>

definition two_patients_env :: api_env where
  "two_patients_env =
     \<lparr>BACKEND_URL = None,
      axios = (\<lambda>req. Inr (JObj [(''status'', JNum 200),
                (''data'', JArr [JObj [(''id'', JNum 1), (''nombres'', JStr ''Ana''),
                                       (''apellidos'', JStr ''Lopez'')],
                                 JObj [(''id'', JNum 2), (''nombres'', JStr ''Luis''),
                                       (''apellidos'', JStr ''Paz'')]])]))\<rparr>"

definition drifted_env :: api_env where
  "drifted_env =
     \<lparr>BACKEND_URL = None,
      axios = (\<lambda>req. Inr (JObj [(''status'', JNum 200),
                (''data'', JArr [JObj [(''id'', JNum 1), (''nombres'', JStr ''Ana''),
                                       (''apellidos'', JStr ''Lopez'')],
                                 JObj [(''id'', JNum 2), (''names'', JStr ''Luis Paz'')]])]))\<rparr>"

definition cui_known_env :: api_env where
  "cui_known_env =
     \<lparr>BACKEND_URL = None,
      axios = (\<lambda>req. Inr (JObj [(''status'', JNum 200), (''data'', JObj [(''exists'', JBool True)])]))\<rparr>"

definition registering_env :: api_env where
  "registering_env =
     \<lparr>BACKEND_URL = None,
      axios = (\<lambda>req. Inr (JObj [(''status'', JNum 200), (''data'', JNum 7)]))\<rparr>"

text \<open>A server that refuses every request with status 409.\<close>

definition rejecting_env :: api_env where
  "rejecting_env =
     \<lparr>BACKEND_URL = None,
      axios = (\<lambda>req. Inl (JError ''AxiosError'' ''Request failed with status code 409''
                [(''response'', JObj [(''status'', JNum 409),
                                      (''data'', JObj [(''error'', JStr ''CUI ya existe.'')])]),
                 (''request'', JObj [])]))\<rparr>"

subsection \<open>Forms and views\<close>

text \<open>The form after every text field has been filled in and no gender chosen.\<close>

definition filled_form :: patient_data where
  "filled_form =
     handleChange ''birthDate'' ''2000-01-01''
       (handleChange ''surnames'' ''Lopez''
         (handleChange ''names'' ''Ana''
           (handleChange ''cui'' ''1234567890123'' (AddPatientView_state None))))"

definition male_form :: patient_data where
  "male_form = handleGenderChange ''M'' filled_form"

text \<open>A view whose query is a space, a tab and a no-break space.\<close>

definition blank_view :: search_view where
  "blank_view =
     \<lparr>query = [CHR '' '', CHR 0x09, CHR 0xA0],
      search_type = ''Carnet'',
      patients = [JObj [(''id'', JNum 1), (''names'', JStr ''Ana Lopez'')]],
      error = ''ERROR: The API has changed!''\<rparr>"

definition failing_search :: "string \<Rightarrow> string \<Rightarrow> search_result" where
  "failing_search q t = SearchError \<lparr>cause = Some \<lparr>response_status = Some 400\<rparr>\<rparr>"

subsection \<open>Database clients and events\<close>

definition student_row :: jsval where
  "student_row =
     JObj [(''id_paciente'', JNum 1), (''carnet'', JStr ''22386''), (''carrera'', JStr ''Medicina'')]"

definition working_client :: pg_client where
  "working_client =
     \<lparr>pg_connect = None,
      pg_query = (\<lambda>sql params. Inr \<lparr>rowCount = JNum 1, rows = [student_row]\<rparr>),
      pg_end = None\<rparr>"

definition unreachable_client :: pg_client where
  "unreachable_client =
     \<lparr>pg_connect = Some (JError ''Error'' ''connect ECONNREFUSED'' []),
      pg_query = (\<lambda>sql params. Inl (JError ''Error'' ''Client is not connected'' [])),
      pg_end = None\<rparr>"

definition working_deps :: deps where
  "working_deps =
     \<lparr>POSTGRES_URL = JStr ''postgres://localhost:6969/sanitas'',
      getPgClient = (\<lambda>url. Inr working_client),
      mapToAPIStudentInfo = (\<lambda>row. Inr row),
      cors_headers = [(''Access-Control-Allow-Origin'', ''*'')],
      JSON_stringify = (\<lambda>v. Inr ''{}'')\<rparr>"

definition unreachable_deps :: deps where
  "unreachable_deps = working_deps\<lparr>getPgClient := (\<lambda>url. Inr unreachable_client)\<rparr>"

definition get_event :: event where
  "get_event = \<lparr>httpMethod = JStr ''GET'', pathParameters = JObj [(''id'', JStr ''1'')]\<rparr>"

definition post_event :: event where
  "post_event = \<lparr>httpMethod = JStr ''POST'', pathParameters = JObj [(''id'', JStr ''1'')]\<rparr>"

subsection \<open>Payloads and tables\<close>

definition first_payload :: "(string \<times> jsval) list" where
  "first_payload =
     [(''cui'', JStr ''1234567890123''), (''nombres'', JStr ''Juan''), (''apellidos'', JStr ''Perez''),
      (''esMujer'', JBool False), (''fechaNacimiento'', JStr ''1990-01-01'')]"

definition second_payload :: "(string \<times> jsval) list" where
  "second_payload =
     [(''cui'', JStr ''1234567890123''), (''nombres'', JStr ''Carlos''),
      (''apellidos'', JStr ''Gonzalez''),
      (''esMujer'', JBool False), (''fechaNacimiento'', JStr ''1985-05-05'')]"

definition payload_without_cui :: "(string \<times> jsval) list" where
  "payload_without_cui =
     [(''nombres'', JStr ''Juan''), (''apellidos'', JStr ''Perez''),
      (''esMujer'', JBool False), (''fechaNacimiento'', JStr ''1990-01-01'')]"

definition example_clinic :: clinic where
  "example_clinic =
     \<lparr>patient_ids = [1, 2],
      surgeries = [\<lparr>surgery_patient = 1, surgeryType = ''Appendectomy'',
                    surgeryYear = ''2023'', complications = ''None''\<rparr>]\<rparr>"


section \<open>The student-information handler: exceptions and the connection\<close>

lemma handler_not_GET:
  "httpMethod ev \<noteq> JStr ''GET'' \<Longrightarrow> \<exists>e. handler d ev = ([], Inl e)"
  by (simp add: handler_def split: sum.splits)

lemma handler_other_method:
  "m \<noteq> ''GET'' \<Longrightarrow> httpMethod ev = JStr m \<Longrightarrow>
     handler d ev =
       ([], Inl (new_Error (''/patient/student/{id} only accepts GET method, you tried: '' @ m)))"
  by (simp add: handler_def template_string_def)

lemma handler_try_client:
  "fst (handler_try d ev) =
     (case getPgClient d (POSTGRES_URL d) of Inl e \<Rightarrow> None | Inr client \<Rightarrow> Some client)"
  by (simp add: handler_try_def split: sum.splits option.splits)

lemma handler_try_no_End: "End \<notin> set (fst (snd (handler_try d ev)))"
  by (simp add: handler_try_def handler_query_def split: sum.splits option.splits)

lemma handler_GET:
  "httpMethod ev = JStr ''GET'' \<Longrightarrow>
     handler d ev =
       handler_finally (fst (handler_try d ev))
         (fst (snd (handler_try d ev)),
          (case snd (snd (handler_try d ev)) of Inl err \<Rightarrow> handler_catch d err | Inr r \<Rightarrow> Inr r))"
  by (simp add: handler_def split: prod.splits)

lemma handler_finally_normal:
  "closes_normally d \<Longrightarrow> snd (handler_finally (fst (handler_try d ev)) tc) = snd tc"
  by (simp add: closes_normally_def handler_finally_def handler_try_client split: sum.splits)

text \<open>
  Claim C1, as amended. The claim as stated fails: the method check is made before the
  \<open>try\<close> block, and it throws. What holds is this. For every event whose
  \<open>httpMethod\<close> is not \<open>GET\<close> the handler throws, without a response and without
  touching the database; when the method is a string \<open>m\<close> the thrown value is an
  \<open>Error\<close> with the message "/patient/student/{id} only accepts GET method, you
  tried: m". For a \<open>GET\<close> event, an exception raised inside the \<open>try\<close> block is
  caught and converted into a 500 response that carries the CORS headers and the
  serialised error, and a response returned by the \<open>try\<close> block is the handler's
  response, provided that serialising the error and closing the connection do not
  themselves throw.
\<close>

theorem handler_exception_policy:
  "(httpMethod ev \<noteq> JStr ''GET'' \<longrightarrow> (\<exists>e. handler d ev = ([], Inl e)))
   \<and> (m \<noteq> ''GET'' \<and> httpMethod ev = JStr m \<longrightarrow>
        handler d ev =
          ([], Inl (new_Error (''/patient/student/{id} only accepts GET method, you tried: '' @ m))))
   \<and> (httpMethod ev = JStr ''GET'' \<and> snd (snd (handler_try d ev)) = Inl err
        \<and> JSON_stringify d err = Inr s \<and> closes_normally d \<longrightarrow>
        snd (handler d ev) = Inr \<lparr>statusCode = 500, headers = cors_headers d, body = JStr s\<rparr>)
   \<and> (httpMethod ev = JStr ''GET'' \<and> snd (snd (handler_try d ev)) = Inr r \<and> closes_normally d \<longrightarrow>
        snd (handler d ev) = Inr r)"
  using handler_not_GET [of ev d] handler_other_method [of m ev d]
  by (simp add: handler_GET handler_finally_normal handler_catch_def
      build_def setBody_def addCORSHeaders_def setStatusCode_def createResponse_def)

theorem handler_exception_policy_witness:
  "handler working_deps post_event =
     ([], Inl (new_Error ''/patient/student/{id} only accepts GET method, you tried: POST''))
   \<and> snd (handler unreachable_deps get_event) =
       Inr \<lparr>statusCode = 500, headers = [(''Access-Control-Allow-Origin'', ''*'')], body = JStr ''{}''\<rparr>
   \<and> snd (handler working_deps get_event) =
       Inr \<lparr>statusCode = 200, headers = [(''Access-Control-Allow-Origin'', ''*'')], body = student_row\<rparr>"
proof -
  have m: "httpMethod post_event = JStr ''POST''" "httpMethod get_event = JStr ''GET''"
    by (simp_all add: post_event_def get_event_def)
  have t1: "snd (snd (handler_try unreachable_deps get_event))
              = Inl (JError ''Error'' ''connect ECONNREFUSED'' [])"
    by (simp add: handler_try_def unreachable_deps_def working_deps_def unreachable_client_def)
  have s1: "JSON_stringify unreachable_deps (JError ''Error'' ''connect ECONNREFUSED'' []) = Inr ''{}''"
    by (simp add: unreachable_deps_def working_deps_def)
  have c1: "closes_normally unreachable_deps" "closes_normally working_deps"
    by (simp_all add: closes_normally_def unreachable_deps_def working_deps_def
        unreachable_client_def working_client_def)
  have t2: "snd (snd (handler_try working_deps get_event)) =
      Inr \<lparr>statusCode = 200, headers = [(''Access-Control-Allow-Origin'', ''*'')], body = student_row\<rparr>"
    by (simp add: handler_try_def handler_query_def working_deps_def working_client_def
        get_event_def first_row_def build_def setBody_def addCORSHeaders_def setStatusCode_def
        createResponse_def)
  have h: "cors_headers unreachable_deps = [(''Access-Control-Allow-Origin'', ''*'')]"
    by (simp add: unreachable_deps_def working_deps_def)
  from handler_exception_policy [of post_event working_deps "''POST''"] m(1)
  have "handler working_deps post_event =
     ([], Inl (new_Error ''/patient/student/{id} only accepts GET method, you tried: POST''))"
    by simp
  moreover from handler_exception_policy [of get_event unreachable_deps _ _ "''{}''"] m(2) t1 s1 c1(1) h
  have "snd (handler unreachable_deps get_event) =
       Inr \<lparr>statusCode = 500, headers = [(''Access-Control-Allow-Origin'', ''*'')], body = JStr ''{}''\<rparr>"
    by simp
  moreover from handler_exception_policy [of get_event working_deps] m(2) t2 c1(2)
  have "snd (handler working_deps get_event) =
       Inr \<lparr>statusCode = 200, headers = [(''Access-Control-Allow-Origin'', ''*'')], body = student_row\<rparr>"
    by simp
  ultimately show ?thesis by simp
qed

text \<open>
  Claim C1, the counterexample: on a \<open>POST\<close> event the handler ends with a thrown
  \<open>Error\<close> and no response.
\<close>

theorem handler_throws_on_POST:
  "handler working_deps post_event =
     ([], Inl (JError ''Error'' ''/patient/student/{id} only accepts GET method, you tried: POST'' []))"
  by (simp add: handler_def post_event_def new_Error_def template_string_def)

text \<open>
  Claim C8. On every execution that enters the \<open>try\<close> block (the method is
  \<open>GET\<close>), \<open>end\<close> is called on the client exactly once when \<open>getPgClient\<close> has
  returned one, and never otherwise; it is the last call made on the client, whatever
  the \<open>try\<close> block returned or threw.
\<close>

theorem connection_released_once:
  "httpMethod ev = JStr ''GET'' \<Longrightarrow>
     count_list (fst (handler d ev)) End
       = (case getPgClient d (POSTGRES_URL d) of Inl e \<Rightarrow> 0 | Inr client \<Rightarrow> 1)
     \<and> (\<forall>client. getPgClient d (POSTGRES_URL d) = Inr client \<longrightarrow> last (fst (handler d ev)) = End)"
  using handler_try_no_End [of d ev]
  by (auto simp: handler_GET handler_finally_def handler_try_client count_list_0_iff
      split: sum.splits)

theorem connection_released_once_witness:
  "httpMethod get_event = JStr ''GET''
   \<and> fst (handler working_deps get_event) = [Connect, Query select_student [JStr ''1''], End]
   \<and> count_list (fst (handler working_deps get_event)) End = 1
   \<and> count_list (fst (handler unreachable_deps get_event)) End = 1"
proof -
  have m: "httpMethod get_event = JStr ''GET''" by (simp add: get_event_def)
  have "fst (handler working_deps get_event) = [Connect, Query select_student [JStr ''1''], End]"
    by (simp add: handler_def handler_try_def handler_query_def handler_finally_def
        working_deps_def working_client_def get_event_def)
  then show ?thesis
    using m connection_released_once [OF m, of working_deps]
      connection_released_once [OF m, of unreachable_deps]
    by (simp add: working_deps_def unreachable_deps_def)
qed


section \<open>The frontend data layer\<close>

subsection \<open>What each function returns and throws\<close>

lemma searchPatient_shape:
  "\<exists>v. searchPatient env q t = ([searchPatient_request env q t], Inr (JObj [(''result'', v)]))
     \<or> searchPatient env q t = ([searchPatient_request env q t], Inr (JObj [(''error'', v)]))"
  by (auto simp: searchPatient_def searchPatient_try_def split: sum.splits)

lemma new_Error_options_shape:
  "\<exists>ps. new_Error_options msg v = JError ''Error'' msg ps"
  by (cases v) (auto simp: new_Error_def new_Error_cause_def split: option.splits)

lemma checkCui_success:
  "template_string c = Inr u \<Longrightarrow>
   axios env (Get (BASE_URL env @ ''/check-cui/'' @ u)) = Inr response \<Longrightarrow>
   get_prop response ''data'' = Inr d \<Longrightarrow>
   get_prop d ''exists'' = Inr ex \<Longrightarrow>
     checkCui env c = ([Get (BASE_URL env @ ''/check-cui/'' @ u)],
                       Inr (JObj [(''exists'', ex), (''cui'', c)]))"
  by (simp add: checkCui_def checkCui_try_def)

lemma checkCui_failure:
  "template_string c = Inr u \<Longrightarrow>
   axios env (Get (BASE_URL env @ ''/check-cui/'' @ u)) = Inl err \<Longrightarrow>
     checkCui env c = ([Get (BASE_URL env @ ''/check-cui/'' @ u)],
                       Inl (new_Error_options ''Error fetching CUI:'' err))"
  by (simp add: checkCui_def checkCui_try_def)

lemma checkCui_cases:
  "(\<exists>u response d ex.
       template_string c = Inr u
     \<and> axios env (Get (BASE_URL env @ ''/check-cui/'' @ u)) = Inr response
     \<and> get_prop response ''data'' = Inr d
     \<and> get_prop d ''exists'' = Inr ex
     \<and> snd (checkCui env c) = Inr (JObj [(''exists'', ex), (''cui'', c)]))
   \<or> (\<exists>ps. snd (checkCui env c) = Inl (JError ''Error'' ''Error fetching CUI:'' ps))"
  using new_Error_options_shape [of "''Error fetching CUI:''"]
  by (auto simp: checkCui_def checkCui_try_def split: sum.splits)

lemma get_prop_throws_TypeError:
  "get_prop v k = Inl e \<Longrightarrow> \<exists>msg. e = JError ''TypeError'' msg []"
  by (cases v) (auto simp: type_error_def)

lemma template_string_throws_TypeError:
  "template_string v = Inl e \<Longrightarrow> \<exists>msg. e = JError ''TypeError'' msg []"
  by (auto simp: template_string_def type_error_def split: if_splits)

lemma submit_catch_throws:
  "\<exists>name msg ps. submit_catch e = Inl (JError name msg ps)"
  by (auto simp: submit_catch_def new_Error_def split: sum.splits
      dest!: get_prop_throws_TypeError template_string_throws_TypeError)

lemma submitPatientData_shape:
  "(\<exists>body resp d. submit_body pd = Inr body
        \<and> axios env (Post (BASE_URL env @ ''/patient'') body json_headers) = Inr resp
        \<and> get_prop resp ''data'' = Inr d
        \<and> submitPatientData env pd = ([Post (BASE_URL env @ ''/patient'') body json_headers], Inr d))
   \<or> (\<exists>name msg ps. snd (submitPatientData env pd) = Inl (JError name msg ps))"
  using submit_catch_throws
  by (auto simp: submitPatientData_def split: sum.splits)

lemma submit_success:
  "submit_body pd = Inr b \<Longrightarrow>
   axios env (Post (BASE_URL env @ ''/patient'') b json_headers) = Inr resp \<Longrightarrow>
   get_prop resp ''data'' = Inr d \<Longrightarrow>
     submitPatientData env pd = ([Post (BASE_URL env @ ''/patient'') b json_headers], Inr d)"
  by (simp add: submitPatientData_def)

lemma submit_failure:
  "submit_body pd = Inr b \<Longrightarrow>
   axios env (Post (BASE_URL env @ ''/patient'') b json_headers) = Inl err \<Longrightarrow>
     submitPatientData env pd
       = ([Post (BASE_URL env @ ''/patient'') b json_headers], submit_catch err)"
  by (simp add: submitPatientData_def)

text \<open>The error that the \<open>catch\<close> block of \<open>submitPatientData\<close> throws, by the kind of failure.\<close>

lemma submit_catch_server_message:
  "get_prop err ''response'' = Inr resp \<Longrightarrow> truthy resp \<Longrightarrow>
   get_prop resp ''data'' = Inr d \<Longrightarrow> get_prop d ''error'' = Inr (JStr m) \<Longrightarrow> m \<noteq> [] \<Longrightarrow>
     submit_catch err = Inl (new_Error m)"
  by (simp add: submit_catch_def template_string_def)

lemma submit_catch_server_default:
  "get_prop err ''response'' = Inr resp \<Longrightarrow> truthy resp \<Longrightarrow>
   get_prop resp ''data'' = Inr d \<Longrightarrow> get_prop d ''error'' = Inr m \<Longrightarrow> \<not> truthy m \<Longrightarrow>
     submit_catch err = Inl (new_Error ''Error registering information'')"
  by (simp add: submit_catch_def template_string_def)

lemma submit_catch_no_response:
  "get_prop err ''response'' = Inr resp \<Longrightarrow> \<not> truthy resp \<Longrightarrow>
   get_prop err ''request'' = Inr rq \<Longrightarrow>
     submit_catch err = Inl (new_Error (if truthy rq then ''No response was received''
                                        else ''Error setting up request''))"
  by (simp add: submit_catch_def)

text \<open>
  Claim C2, as amended. The claim as stated fails for \<open>checkCui\<close> and
  \<open>submitPatientData\<close>, whose returned objects are not of the shape \<open>{result}\<close> or
  \<open>{error}\<close>. What holds is this.
  \<^item> \<open>searchPatient\<close>, for every input and every server response or failure, sends
    one request and returns \<open>{result}\<close> or \<open>{error}\<close>; it never throws.
  \<^item> \<open>checkCui\<close>: when the server answers and the answer has data, it returns
    \<open>{exists, cui}\<close>, \<open>exists\<close> being that of the data; when the request fails, it
    throws an \<open>Error\<close> with the message "Error fetching CUI:", built from the
    failure. It returns in no other case than the first, and whenever it does not
    return it throws an \<open>Error\<close> with that message.
  \<^item> \<open>submitPatientData\<close>: when the server answers, it returns the data of the
    answer; when the request fails, it throws what its \<open>catch\<close> block builds from
    the failure, which is always an error object. It returns in no other case than the
    first, and whenever it does not return it throws an error object.
\<close>

theorem data_layer_contract:
  "(\<exists>v. searchPatient env q t = ([searchPatient_request env q t], Inr (JObj [(''result'', v)]))
       \<or> searchPatient env q t = ([searchPatient_request env q t], Inr (JObj [(''error'', v)])))
   \<and> (template_string c = Inr u
        \<and> axios env (Get (BASE_URL env @ ''/check-cui/'' @ u)) = Inr response
        \<and> get_prop response ''data'' = Inr d \<and> get_prop d ''exists'' = Inr ex
        \<longrightarrow> checkCui env c = ([Get (BASE_URL env @ ''/check-cui/'' @ u)],
                               Inr (JObj [(''exists'', ex), (''cui'', c)])))
   \<and> (template_string c = Inr u
        \<and> axios env (Get (BASE_URL env @ ''/check-cui/'' @ u)) = Inl err
        \<longrightarrow> checkCui env c = ([Get (BASE_URL env @ ''/check-cui/'' @ u)],
                               Inl (new_Error_options ''Error fetching CUI:'' err))
            \<and> (\<exists>ps. new_Error_options ''Error fetching CUI:'' err
                        = JError ''Error'' ''Error fetching CUI:'' ps))
   \<and> ((\<exists>u response d ex.
          template_string c = Inr u
        \<and> axios env (Get (BASE_URL env @ ''/check-cui/'' @ u)) = Inr response
        \<and> get_prop response ''data'' = Inr d
        \<and> get_prop d ''exists'' = Inr ex
        \<and> snd (checkCui env c) = Inr (JObj [(''exists'', ex), (''cui'', c)]))
       \<or> (\<exists>ps. snd (checkCui env c) = Inl (JError ''Error'' ''Error fetching CUI:'' ps)))
   \<and> (submit_body pd = Inr b
        \<and> axios env (Post (BASE_URL env @ ''/patient'') b json_headers) = Inr resp
        \<and> get_prop resp ''data'' = Inr dd
        \<longrightarrow> submitPatientData env pd
              = ([Post (BASE_URL env @ ''/patient'') b json_headers], Inr dd))
   \<and> (submit_body pd = Inr b
        \<and> axios env (Post (BASE_URL env @ ''/patient'') b json_headers) = Inl err
        \<longrightarrow> submitPatientData env pd
              = ([Post (BASE_URL env @ ''/patient'') b json_headers], submit_catch err)
            \<and> (\<exists>name msg ps. submit_catch err = Inl (JError name msg ps)))
   \<and> ((\<exists>body resp d. submit_body pd = Inr body
          \<and> axios env (Post (BASE_URL env @ ''/patient'') body json_headers) = Inr resp
          \<and> get_prop resp ''data'' = Inr d
          \<and> submitPatientData env pd = ([Post (BASE_URL env @ ''/patient'') body json_headers], Inr d))
       \<or> (\<exists>name msg ps. snd (submitPatientData env pd) = Inl (JError name msg ps)))"
proof (intro conjI impI)
  show "\<exists>v. searchPatient env q t = ([searchPatient_request env q t], Inr (JObj [(''result'', v)]))
       \<or> searchPatient env q t = ([searchPatient_request env q t], Inr (JObj [(''error'', v)]))"
    by (rule searchPatient_shape)
next
  assume "template_string c = Inr u
        \<and> axios env (Get (BASE_URL env @ ''/check-cui/'' @ u)) = Inr response
        \<and> get_prop response ''data'' = Inr d \<and> get_prop d ''exists'' = Inr ex"
  then show "checkCui env c = ([Get (BASE_URL env @ ''/check-cui/'' @ u)],
                               Inr (JObj [(''exists'', ex), (''cui'', c)]))"
    by (simp add: checkCui_success)
next
  assume a: "template_string c = Inr u
        \<and> axios env (Get (BASE_URL env @ ''/check-cui/'' @ u)) = Inl err"
  then show "checkCui env c = ([Get (BASE_URL env @ ''/check-cui/'' @ u)],
                               Inl (new_Error_options ''Error fetching CUI:'' err))"
    by (simp add: checkCui_failure)
  show "\<exists>ps. new_Error_options ''Error fetching CUI:'' err
                = JError ''Error'' ''Error fetching CUI:'' ps"
    by (rule new_Error_options_shape)
next
  show "(\<exists>u response d ex.
          template_string c = Inr u
        \<and> axios env (Get (BASE_URL env @ ''/check-cui/'' @ u)) = Inr response
        \<and> get_prop response ''data'' = Inr d
        \<and> get_prop d ''exists'' = Inr ex
        \<and> snd (checkCui env c) = Inr (JObj [(''exists'', ex), (''cui'', c)]))
       \<or> (\<exists>ps. snd (checkCui env c) = Inl (JError ''Error'' ''Error fetching CUI:'' ps))"
    by (rule checkCui_cases)
next
  assume "submit_body pd = Inr b
        \<and> axios env (Post (BASE_URL env @ ''/patient'') b json_headers) = Inr resp
        \<and> get_prop resp ''data'' = Inr dd"
  then show "submitPatientData env pd
              = ([Post (BASE_URL env @ ''/patient'') b json_headers], Inr dd)"
    by (simp add: submit_success)
next
  assume "submit_body pd = Inr b
        \<and> axios env (Post (BASE_URL env @ ''/patient'') b json_headers) = Inl err"
  then show "submitPatientData env pd
              = ([Post (BASE_URL env @ ''/patient'') b json_headers], submit_catch err)"
    by (simp add: submit_failure)
  show "\<exists>name msg ps. submit_catch err = Inl (JError name msg ps)"
    by (rule submit_catch_throws)
next
  show "(\<exists>body resp d. submit_body pd = Inr body
          \<and> axios env (Post (BASE_URL env @ ''/patient'') body json_headers) = Inr resp
          \<and> get_prop resp ''data'' = Inr d
          \<and> submitPatientData env pd = ([Post (BASE_URL env @ ''/patient'') body json_headers], Inr d))
       \<or> (\<exists>name msg ps. snd (submitPatientData env pd) = Inl (JError name msg ps))"
    by (rule submitPatientData_shape)
qed

theorem data_layer_contract_witness:
  "checkCui cui_known_env (JStr ''1234567890123'')
     = ([Get ''http://localhost:3000/check-cui/1234567890123''],
        Inr (JObj [(''exists'', JBool True), (''cui'', JStr ''1234567890123'')]))
   \<and> checkCui rejecting_env (JStr ''1234567890123'')
     = ([Get ''http://localhost:3000/check-cui/1234567890123''],
        Inl (JError ''Error'' ''Error fetching CUI:'' []))
   \<and> snd (submitPatientData registering_env (patient_object male_form)) = Inr (JNum 7)
   \<and> snd (submitPatientData rejecting_env (patient_object male_form))
     = Inl (JError ''Error'' ''CUI ya existe.'' [])"
proof -
  let ?c = "JStr ''1234567890123''"
  let ?u = "''1234567890123''"
  let ?ok = "JObj [(''status'', JNum 200), (''data'', JObj [(''exists'', JBool True)])]"
  let ?created = "JObj [(''status'', JNum 200), (''data'', JNum 7)]"
  let ?refusal = "JError ''AxiosError'' ''Request failed with status code 409''
                [(''response'', JObj [(''status'', JNum 409),
                                      (''data'', JObj [(''error'', JStr ''CUI ya existe.'')])]),
                 (''request'', JObj [])]"
  let ?b = "JObj [(''cui'', JStr ''1234567890123''), (''nombres'', JStr ''Ana''),
                  (''apellidos'', JStr ''Lopez''), (''esMujer'', JStr ''F''),
                  (''fechaNacimiento'', JStr ''2000-01-01'')]"
  have ts: "template_string ?c = Inr ?u"
    by (simp add: template_string_def)
  have urls: "BASE_URL cui_known_env = ''http://localhost:3000''"
    "BASE_URL rejecting_env = ''http://localhost:3000''"
    "BASE_URL registering_env = ''http://localhost:3000''"
    by (simp_all add: BASE_URL_def DEV_URL_def cui_known_env_def rejecting_env_def
        registering_env_def)
  have a1: "axios cui_known_env (Get (BASE_URL cui_known_env @ ''/check-cui/'' @ ?u)) = Inr ?ok"
    by (simp add: cui_known_env_def)
  have d1: "get_prop ?ok ''data'' = Inr (JObj [(''exists'', JBool True)])"
    "get_prop (JObj [(''exists'', JBool True)]) ''exists'' = Inr (JBool True)"
    by simp_all
  have a2: "axios rejecting_env (Get (BASE_URL rejecting_env @ ''/check-cui/'' @ ?u)) = Inl ?refusal"
    by (simp add: rejecting_env_def)
  have sb: "submit_body (patient_object male_form) = Inr ?b"
    by (simp add: submit_body_def patient_object_def male_form_def handleGenderChange_def
        filled_form_def handleChange_def AddPatientView_state_def name_char_def)
  have a3: "axios registering_env (Post (BASE_URL registering_env @ ''/patient'') ?b json_headers)
              = Inr ?created"
    by (simp add: registering_env_def)
  have d3: "get_prop ?created ''data'' = Inr (JNum 7)" by simp
  have a4: "axios rejecting_env (Post (BASE_URL rejecting_env @ ''/patient'') ?b json_headers)
              = Inl ?refusal"
    by (simp add: rejecting_env_def)
  have c4: "submit_catch ?refusal = Inl (JError ''Error'' ''CUI ya existe.'' [])"
    by (simp add: submit_catch_def template_string_def new_Error_def)
  have n2: "new_Error_options ''Error fetching CUI:'' ?refusal
              = JError ''Error'' ''Error fetching CUI:'' []"
    by (simp add: new_Error_def)
  from data_layer_contract [where env = cui_known_env and c = ?c and u = ?u and response = ?ok
      and d = "JObj [(''exists'', JBool True)]" and ex = "JBool True"] ts a1 d1
  have r1: "checkCui cui_known_env ?c
     = ([Get ''http://localhost:3000/check-cui/1234567890123''],
        Inr (JObj [(''exists'', JBool True), (''cui'', ?c)]))"
    by (simp add: urls)
  from data_layer_contract [where env = rejecting_env and c = ?c and u = ?u and err = ?refusal]
    ts a2 n2
  have r2: "checkCui rejecting_env ?c
     = ([Get ''http://localhost:3000/check-cui/1234567890123''],
        Inl (JError ''Error'' ''Error fetching CUI:'' []))"
    by (simp add: urls)
  from data_layer_contract [where env = registering_env and pd = "patient_object male_form"
      and b = ?b and resp = ?created and dd = "JNum 7"] sb a3 d3
  have r3: "snd (submitPatientData registering_env (patient_object male_form)) = Inr (JNum 7)"
    by simp
  from data_layer_contract [where env = rejecting_env and pd = "patient_object male_form"
      and b = ?b and err = ?refusal] sb a4 c4
  have r4: "snd (submitPatientData rejecting_env (patient_object male_form))
     = Inl (JError ''Error'' ''CUI ya existe.'' [])"
    by simp
  from r1 r2 r3 r4 show ?thesis by simp
qed

text \<open>
  Claim C2, the counterexample: when the server knows the CUI, \<open>checkCui\<close> returns
  the object \<open>{exists: true, cui}\<close>, which is neither \<open>{result}\<close> nor \<open>{error}\<close>.
\<close>

theorem checkCui_not_result_or_error:
  "snd (checkCui cui_known_env (JStr ''1234567890123''))
     = Inr (JObj [(''exists'', JBool True), (''cui'', JStr ''1234567890123'')])
   \<and> \<not> result_or_error (snd (checkCui cui_known_env (JStr ''1234567890123'')))"
  by (simp add: result_or_error_def checkCui_def checkCui_try_def template_string_def
      cui_known_env_def)

subsection \<open>Search results are previews\<close>

lemma to_preview_complete: "complete_record r \<Longrightarrow> to_preview r = Inr (preview_of r)"
  by (auto simp: complete_record_def to_preview_def preview_of_def field_def template_string_def
      split: sum.splits)

lemma to_preview_incomplete: "\<not> complete_record r \<Longrightarrow> \<exists>e. to_preview r = Inl e"
  by (auto simp: complete_record_def to_preview_def field_def template_string_def
      split: sum.splits)

lemma to_preview_Inr: "to_preview r = Inr p \<Longrightarrow> complete_record r \<and> p = preview_of r"
  using to_preview_complete to_preview_incomplete by (cases "complete_record r") fastforce+

lemma array_map_complete:
  "list_all complete_record rs \<Longrightarrow> array_map to_preview rs = Inr (map preview_of rs)"
  by (induction rs) (simp_all add: to_preview_complete)

lemma array_map_Inr:
  "array_map to_preview rs = Inr ps \<Longrightarrow> list_all complete_record rs \<and> ps = map preview_of rs"
  by (induction rs arbitrary: ps) (auto split: sum.splits dest: to_preview_Inr)

lemma lacks_incomplete:
  "lacks r ''id'' \<or> lacks r ''nombres'' \<or> lacks r ''apellidos'' \<Longrightarrow> \<not> complete_record r"
  by (auto simp: lacks_def complete_record_def)

text \<open>
  Claim C7. Let the server answer a search with an array of records. If every record is
  complete, \<open>searchPatient\<close> returns \<open>{result}\<close> with one preview \<open>{id, names}\<close> for
  each record, in order, \<open>names\<close> being \<open>nombres\<close>, a space and \<open>apellidos\<close>. If
  some record lacks \<open>id\<close>, \<open>nombres\<close> or \<open>apellidos\<close>, it returns \<open>{error}\<close>.
  And whenever it returns \<open>{result}\<close>, the result is the list of the previews of all
  the records, each of them complete: never a part of it.
\<close>

theorem searchPatient_previews:
  assumes "axios env (searchPatient_request env q t) = Inr response"
    and "get_prop response ''data'' = Inr (JArr rs)"
  shows "(list_all complete_record rs \<longrightarrow>
            snd (searchPatient env q t) = Inr (JObj [(''result'', JArr (map preview_of rs))]))
       \<and> ((\<exists>r \<in> set rs. lacks r ''id'' \<or> lacks r ''nombres'' \<or> lacks r ''apellidos'') \<longrightarrow>
            (\<exists>e. snd (searchPatient env q t) = Inr (JObj [(''error'', e)])))
       \<and> (\<forall>v. snd (searchPatient env q t) = Inr (JObj [(''result'', v)]) \<longrightarrow>
            list_all complete_record rs \<and> v = JArr (map preview_of rs))"
proof (intro conjI impI allI)
  assume "list_all complete_record rs"
  then show "snd (searchPatient env q t) = Inr (JObj [(''result'', JArr (map preview_of rs))])"
    using assms by (simp add: searchPatient_def searchPatient_try_def array_map_complete)
next
  assume "\<exists>r \<in> set rs. lacks r ''id'' \<or> lacks r ''nombres'' \<or> lacks r ''apellidos''"
  then have "\<not> list_all complete_record rs"
    using lacks_incomplete by (auto simp: list_all_iff)
  then obtain e where "array_map to_preview rs = Inl e"
    using array_map_Inr by (cases "array_map to_preview rs") auto
  then show "\<exists>e. snd (searchPatient env q t) = Inr (JObj [(''error'', e)])"
    using assms by (simp add: searchPatient_def searchPatient_try_def)
next
  fix v
  assume r: "snd (searchPatient env q t) = Inr (JObj [(''result'', v)])"
  show "list_all complete_record rs" "v = JArr (map preview_of rs)"
    using r assms array_map_Inr [of rs]
    by (auto simp: searchPatient_def searchPatient_try_def split: sum.splits)
qed

theorem searchPatient_previews_witness:
  "snd (searchPatient two_patients_env (JStr ''a'') (JStr ''Nombres''))
     = Inr (JObj [(''result'',
          JArr [JObj [(''id'', JNum 1), (''names'', JStr ''Ana Lopez'')],
                JObj [(''id'', JNum 2), (''names'', JStr ''Luis Paz'')]])])
   \<and> (\<exists>e. snd (searchPatient drifted_env (JStr ''a'') (JStr ''Nombres''))
             = Inr (JObj [(''error'', e)]))"
proof -
  let ?r1 = "JObj [(''id'', JNum 1), (''nombres'', JStr ''Ana''), (''apellidos'', JStr ''Lopez'')]"
  let ?r2 = "JObj [(''id'', JNum 2), (''nombres'', JStr ''Luis''), (''apellidos'', JStr ''Paz'')]"
  let ?r3 = "JObj [(''id'', JNum 2), (''names'', JStr ''Luis Paz'')]"
  let ?resp = "\<lambda>rs. JObj [(''status'', JNum 200), (''data'', JArr rs)]"
  have a1: "axios two_patients_env
              (searchPatient_request two_patients_env (JStr ''a'') (JStr ''Nombres''))
              = Inr (?resp [?r1, ?r2])"
    by (simp add: two_patients_env_def)
  have d1: "get_prop (?resp [?r1, ?r2]) ''data'' = Inr (JArr [?r1, ?r2])" by simp
  have c1: "list_all complete_record [?r1, ?r2]"
    by (simp add: complete_record_def field_def)
  have a2: "axios drifted_env (searchPatient_request drifted_env (JStr ''a'') (JStr ''Nombres''))
              = Inr (?resp [?r1, ?r3])"
    by (simp add: drifted_env_def)
  have d2: "get_prop (?resp [?r1, ?r3]) ''data'' = Inr (JArr [?r1, ?r3])" by simp
  have c2: "\<exists>r \<in> set [?r1, ?r3]. lacks r ''id'' \<or> lacks r ''nombres'' \<or> lacks r ''apellidos''"
    by (simp add: lacks_def field_def)
  from searchPatient_previews [OF a1 d1] c1
  have "snd (searchPatient two_patients_env (JStr ''a'') (JStr ''Nombres''))
          = Inr (JObj [(''result'', JArr (map preview_of [?r1, ?r2]))])" by blast
  moreover from searchPatient_previews [OF a2 d2] c2
  have "\<exists>e. snd (searchPatient drifted_env (JStr ''a'') (JStr ''Nombres''))
             = Inr (JObj [(''error'', e)])" by blast
  ultimately show ?thesis by (simp add: preview_of_def field_def)
qed

subsection \<open>The sex that is transmitted\<close>

text \<open>
  Claim C9. Whatever the \<open>sex\<close> of the patient data is, \<open>submitPatientData\<close> sends
  one request whose \<open>esMujer\<close> is "F" when \<open>sex\<close> is truthy and "M" when it is
  falsy. The string "M" that the radio button \<open>Masculino\<close> stores is truthy, so a
  patient registered as male is sent as "F".
\<close>

theorem submit_sends_esMujer:
  "get_prop patientData ''sex'' = Inr sx \<Longrightarrow>
     \<exists>body. fst (submitPatientData env patientData)
              = [Post (BASE_URL env @ ''/patient'') body json_headers]
          \<and> get_prop body ''esMujer'' = Inr (JStr (if truthy sx then ''F'' else ''M''))"
  by (cases patientData) (auto simp: submitPatientData_def submit_body_def split: sum.splits)

theorem submit_sends_esMujer_witness:
  "get_prop (patient_object male_form) ''sex'' = Inr (JStr ''M'')
   \<and> (\<exists>body. fst (submitPatientData cui_known_env (patient_object male_form))
              = [Post (BASE_URL cui_known_env @ ''/patient'') body json_headers]
          \<and> get_prop body ''esMujer'' = Inr (JStr ''F''))"
proof -
  have sx: "get_prop (patient_object male_form) ''sex'' = Inr (JStr ''M'')"
    by (simp add: patient_object_def male_form_def handleGenderChange_def)
  show ?thesis
    using sx submit_sends_esMujer [OF sx, of cui_known_env] by simp
qed


section \<open>The frontend views\<close>

subsection \<open>Searching with a blank query\<close>

lemma trim_blank: "(trim s = []) = (\<forall>c \<in> set s. is_white_space c)"
proof
  assume "trim s = []"
  then have a: "\<forall>c \<in> set (dropWhile is_white_space s). is_white_space c"
    by (simp add: trim_def)
  have "dropWhile is_white_space s = []"
  proof (rule ccontr)
    assume n: "dropWhile is_white_space s \<noteq> []"
    then have "\<not> is_white_space (hd (dropWhile is_white_space s))"
      by (rule hd_dropWhile)
    moreover have "hd (dropWhile is_white_space s) \<in> set (dropWhile is_white_space s)"
      using n by simp
    ultimately show False using a by blast
  qed
  then show "\<forall>c \<in> set s. is_white_space c"
    by simp
next
  assume "\<forall>c \<in> set s. is_white_space c"
  then show "trim s = []"
    by (auto simp: trim_def dest: set_dropWhileD)
qed

lemma emptyQuery_blank: "emptyQuery st = (\<forall>c \<in> set (query st). is_white_space c)"
  by (simp add: emptyQuery_def trim_blank)

text \<open>
  Claim C10. When the query is empty or consists of whitespace only, the search button
  is disabled, and a click that runs all the same makes no call to
  \<open>searchPatientsApiCall\<close>: it sets the error message to "ERROR: Por favor ingrese
  algo para buscar!" and leaves the rest of the state, the list of patients included,
  as it was.
\<close>

theorem blank_query_never_searches:
  "\<forall>c \<in> set (query st). is_white_space c \<Longrightarrow>
     search_button_disabled st
     \<and> searchBtnClick searchPatientsApiCall st
         = ([], st\<lparr>error := ''ERROR: Por favor ingrese algo para buscar!''\<rparr>)"
  by (simp add: search_button_disabled_def searchBtnClick_def emptyQuery_blank
      showErrorMessage_def hideErrorMessage_def)

theorem blank_query_never_searches_witness:
  "list_all is_white_space (query blank_view)
   \<and> search_button_disabled blank_view
   \<and> searchBtnClick failing_search blank_view
       = ([], \<lparr>query = [CHR '' '', CHR 0x09, CHR 0xA0],
               search_type = ''Carnet'',
               patients = [JObj [(''id'', JNum 1), (''names'', JStr ''Ana Lopez'')]],
               error = ''ERROR: Por favor ingrese algo para buscar!''\<rparr>)"
proof -
  have b: "\<forall>c \<in> set (query blank_view). is_white_space c"
    by (simp add: blank_view_def is_white_space_def)
  show ?thesis
    using b blank_query_never_searches [OF b, of failing_search]
    by (simp add: blank_view_def list_all_iff)
qed

subsection \<open>Validation of the patient form\<close>

lemma first_empty_required:
  "first_empty pd [''names'', ''surnames'', ''birthDate''] = None
     \<longleftrightarrow> names pd \<noteq> [] \<and> surnames pd \<noteq> [] \<and> birthDate pd \<noteq> []"
  by (simp add: get_field_def)

text \<open>
  What \<open>validateFormData\<close> checks: the length of the CUI, the three required fields,
  and the property \<open>isWoman\<close>; the selected gender, \<open>sex\<close>, is not looked at.
\<close>

lemma validateFormData_accepts:
  "snd (validateFormData pd)
     \<longleftrightarrow> length (cui pd) = 13 \<and> names pd \<noteq> [] \<and> surnames pd \<noteq> [] \<and> birthDate pd \<noteq> []
         \<and> isWoman pd \<noteq> JNull"
  using first_empty_required [of pd]
  by (auto simp: validateFormData_def split: option.splits)

lemma handleSubmit_rejected:
  "\<not> snd (validateFormData pd) \<Longrightarrow>
     SubmitPatientData pd' \<notin> set (fst (handleSubmit submit pd))"
  by (auto simp: handleSubmit_def)

text \<open>
  Claim C3, the failing input. With a CUI of 13 characters, names, surnames and a birth
  date filled in and no gender selected (\<open>sex\<close> is still \<open>null\<close>), validation
  passes without an alert and \<open>submitPatientData\<close> is called: the gender check reads
  \<open>isWoman\<close>, a property that the patient data of the form does not have.
\<close>

theorem form_without_gender_is_submitted:
  "sex filled_form = JNull
   \<and> validateFormData filled_form = ([], True)
   \<and> handleSubmit (submit_via registering_env) filled_form
       = ([SubmitPatientData filled_form,
           Alert ([CHR 0xA1] @ ''Informaci'' @ [CHR 0xF3] @ ''n registrada con ''
                  @ [CHR 0xE9] @ ''xito!''),
           SetSelectedPatientId (JNum 7),
           Navigate UPDATE_PATIENT True], None)"
  by (simp add: filled_form_def handleChange_def AddPatientView_state_def validateFormData_def
      get_field_def name_char_def handleSubmit_def submit_via_def submitPatientData_def
      submit_body_def patient_object_def registering_env_def)


section \<open>The endpoints modelled from the specification\<close>

text \<open>
  Claim C4. A creation payload without a \<open>cui\<close> is answered with status 400 and the
  error message "CUI es requerido."; nothing is stored.
\<close>

theorem create_without_cui:
  "map_of payload ''cui'' = None \<Longrightarrow>
     create_patient table payload
       = (\<lparr>status = 400, data = JObj [(''error'', JStr ''CUI es requerido.'')]\<rparr>, table)"
  by (simp add: create_patient_def)

theorem create_without_cui_witness:
  "map_of payload_without_cui ''cui'' = None
   \<and> create_patient (snd (create_patient [] first_payload)) payload_without_cui
       = (\<lparr>status = 400, data = JObj [(''error'', JStr ''CUI es requerido.'')]\<rparr>,
          snd (create_patient [] first_payload))"
proof -
  have m: "map_of payload_without_cui ''cui'' = None"
    by (simp add: payload_without_cui_def)
  show ?thesis
    using m create_without_cui [OF m, of "snd (create_patient [] first_payload)"] by simp
qed

text \<open>
  Claim C5. A creation payload whose \<open>cui\<close> is the \<open>cui\<close> of a stored patient is
  answered with status 409 and the error message "CUI ya existe."; the table of
  patients is left as it was, so no second record is created.
\<close>

theorem create_duplicate_cui:
  "map_of payload ''cui'' = Some c \<Longrightarrow> \<exists>p \<in> set table. stored_cui p = c \<Longrightarrow>
     create_patient table payload
       = (\<lparr>status = 409, data = JObj [(''error'', JStr ''CUI ya existe.'')]\<rparr>, table)"
  by (auto simp: create_patient_def)

theorem create_duplicate_cui_witness:
  "snd (create_patient [] first_payload) = [\<lparr>patient_id = 1, patient_fields = first_payload\<rparr>]
   \<and> create_patient [\<lparr>patient_id = 1, patient_fields = first_payload\<rparr>] second_payload
       = (\<lparr>status = 409, data = JObj [(''error'', JStr ''CUI ya existe.'')]\<rparr>,
          [\<lparr>patient_id = 1, patient_fields = first_payload\<rparr>])"
proof -
  have f: "snd (create_patient [] first_payload)
             = [\<lparr>patient_id = 1, patient_fields = first_payload\<rparr>]"
    by (simp add: create_patient_def first_payload_def next_id_def)
  have m: "map_of second_payload ''cui'' = Some (JStr ''1234567890123'')"
    by (simp add: second_payload_def)
  have s: "\<exists>p \<in> set [\<lparr>patient_id = 1, patient_fields = first_payload\<rparr>].
             stored_cui p = JStr ''1234567890123''"
    by (simp add: stored_cui_def first_payload_def)
  show ?thesis
    using f create_duplicate_cui [OF m s] by simp
qed

text \<open>The uniqueness invariant on the national ID is kept by every creation.\<close>

lemma create_patient_keeps_cui_unique:
  "distinct (map stored_cui table) \<Longrightarrow>
     distinct (map stored_cui (snd (create_patient table payload)))"
  by (auto simp: create_patient_def stored_cui_def split: option.splits)

text \<open>
  Claim C6. A lookup of the surgical history with a malformed identifier, with the
  identifier of no patient, or with the identifier of a patient who has no recorded
  surgery is answered with status 404 and the message "No surgical history found for
  the provided ID."
\<close>

theorem surgical_history_not_found:
  "parse_id ident = None
   \<or> (\<exists>i. parse_id ident = Some i
          \<and> (i \<notin> set (patient_ids db) \<or> filter (\<lambda>s. surgery_patient s = i) (surgeries db) = []))
   \<Longrightarrow> get_surgical_history db ident
         = \<lparr>status = 404,
            data = JObj [(''message'', JStr ''No surgical history found for the provided ID.'')]\<rparr>"
  by (auto simp: get_surgical_history_def no_surgical_history_def)

theorem surgical_history_not_found_witness:
  "get_surgical_history example_clinic ''2''
     = \<lparr>status = 404,
        data = JObj [(''message'', JStr ''No surgical history found for the provided ID.'')]\<rparr>
   \<and> get_surgical_history example_clinic ''999999''
     = \<lparr>status = 404,
        data = JObj [(''message'', JStr ''No surgical history found for the provided ID.'')]\<rparr>
   \<and> get_surgical_history example_clinic ''12a''
     = \<lparr>status = 404,
        data = JObj [(''message'', JStr ''No surgical history found for the provided ID.'')]\<rparr>"
proof -
  have p: "parse_id ''2'' = Some 2" "parse_id ''999999'' = Some 999999" "parse_id ''12a'' = None"
    by (simp_all add: parse_id_def is_digit_def)
  have a: "filter (\<lambda>s. surgery_patient s = 2) (surgeries example_clinic) = []"
    by (simp add: example_clinic_def)
  have b: "999999 \<notin> set (patient_ids example_clinic)"
    by (simp add: example_clinic_def)
  show ?thesis
    using surgical_history_not_found [of "''2''" example_clinic] p(1) a
      surgical_history_not_found [of "''999999''" example_clinic] p(2) b
      surgical_history_not_found [of "''12a''" example_clinic] p(3)
    by simp
qed

end
